theory Spec2Isabelle
  imports Main "HOL-Library.Char_ord" "HOL-Library.List_Lexorder"
begin

section \<open>Values of the Python program\<close>

text \<open>
  A Python \<open>str\<close> is a \<open>string\<close>; one \<open>char\<close> stands for one code point (those
  below 256). The order on strings is the lexicographic order on code points, which is what
  Python's \<open>>\<close> on two \<open>str\<close> computes.

  \<open>json\<close> is what \<open>response.json()\<close> can return: \<open>None\<close>, a \<open>bool\<close>, an
  \<open>int\<close>, a \<open>float\<close>, a \<open>str\<close>, a \<open>list\<close> or a \<open>dict\<close> with \<open>str\<close> keys.
  A \<open>dict\<close> is the list of its items in insertion order. A \<open>float\<close> is carried by the text
  \<open>float.__repr__\<close> prints for it (\<open>''0.0''\<close>, \<open>''-0.0''\<close>, \<open>''1.5''\<close>,
  \<open>''1e-05''\<close>, \<open>''nan''\<close>, \<open>''inf''\<close>, \<open>''-inf''\<close>), since the program never computes
  with a float: it only tests it for truth and prints it.
\<close>

datatype json =
    JNull
  | JBool bool
  | JInt int
  | JFloat string
  | JStr string
  | JArr "json list"
  | JObj "(string \<times> json) list"

datatype py_error = AttributeError

text \<open>Python's truth value of an object (\<open>not data\<close> is its negation).\<close>

fun truthy :: "json \<Rightarrow> bool" where
  "truthy JNull = False"
| "truthy (JBool b) = b"
| "truthy (JInt i) = (i \<noteq> 0)"
| "truthy (JFloat r) = (r \<noteq> ''0.0'' \<and> r \<noteq> ''-0.0'')"
| "truthy (JStr s) = (s \<noteq> [])"
| "truthy (JArr xs) = (xs \<noteq> [])"
| "truthy (JObj kvs) = (kvs \<noteq> [])"

text \<open>
  \<open>data.get(key, default)\<close>: only a \<open>dict\<close> has the method; on any other object the
  attribute lookup raises \<open>AttributeError\<close>.
\<close>

fun dict_get :: "json \<Rightarrow> string \<Rightarrow> json \<Rightarrow> py_error + json" where
  "dict_get (JObj kvs) k d = Inr (case map_of kvs k of None \<Rightarrow> d | Some v \<Rightarrow> v)"
| "dict_get JNull k d = Inl AttributeError"
| "dict_get (JBool b) k d = Inl AttributeError"
| "dict_get (JInt i) k d = Inl AttributeError"
| "dict_get (JFloat r) k d = Inl AttributeError"
| "dict_get (JStr s) k d = Inl AttributeError"
| "dict_get (JArr xs) k d = Inl AttributeError"

subsection \<open>Formatting an \<open>int\<close>\<close>

definition digit_char :: "nat \<Rightarrow> char" where
  "digit_char d = char_of (48 + d)"

function str_nat :: "nat \<Rightarrow> string" where
  "str_nat n = (if n < 10 then [digit_char n] else str_nat (n div 10) @ [digit_char (n mod 10)])"
  by pat_completeness auto
termination
  by (relation "measure id") auto

declare str_nat.simps [simp del]

text \<open>\<open>str(i)\<close>, which is what \<open>{i}\<close> in an f-string and \<open>json.dumps\<close> print for an \<open>int\<close>.\<close>

definition str_int :: "int \<Rightarrow> string" where
  "str_int i = (if i < 0 then CHR ''-'' # str_nat (nat (- i)) else str_nat (nat i))"

subsection \<open>\<open>json.dumps(obj, indent=2)\<close>\<close>

definition hex_char :: "nat \<Rightarrow> char" where
  "hex_char d = (if d < 10 then char_of (48 + d) else char_of (87 + d))"

text \<open>
  One character of a string literal, with \<open>ensure_ascii\<close> on: backslash and the double quote
  are escaped, the five short escapes are used, every other character outside
  \<open>' '\<close>..\<open>'~'\<close> becomes \<open>\<^verbatim>\<open>\u\<close>\<close> and four lower-case hex digits.
\<close>

definition escape_char :: "char \<Rightarrow> string" where
  "escape_char c =
     (if c = CHR 0x5C then [CHR 0x5C, CHR 0x5C]
      else if c = CHR 0x22 then [CHR 0x5C, CHR 0x22]
      else if c = CHR 0x08 then [CHR 0x5C, CHR ''b'']
      else if c = CHR 0x0C then [CHR 0x5C, CHR ''f'']
      else if c = CHR 0x0A then [CHR 0x5C, CHR ''n'']
      else if c = CHR 0x0D then [CHR 0x5C, CHR ''r'']
      else if c = CHR 0x09 then [CHR 0x5C, CHR ''t'']
      else if 32 \<le> (of_char c :: nat) \<and> (of_char c :: nat) \<le> 126 then [c]
      else [CHR 0x5C, CHR ''u'', CHR ''0'', CHR ''0'',
            hex_char (of_char c div 16), hex_char (of_char c mod 16)])"

definition encode_str :: "string \<Rightarrow> string" where
  "encode_str s = CHR 0x22 # concat (map escape_char s) @ [CHR 0x22]"

text \<open>How the encoder prints a \<open>float\<close>: its \<open>repr\<close>, but for the three values JSON lacks.\<close>

definition floatstr :: "string \<Rightarrow> string" where
  "floatstr r =
     (if r = ''nan'' then ''NaN''
      else if r = ''inf'' then ''Infinity''
      else if r = ''-inf'' then ''-Infinity''
      else r)"

text \<open>A line break followed by the indentation of nesting level \<open>lvl\<close> (two spaces a level).\<close>

definition newline_indent :: "nat \<Rightarrow> string" where
  "newline_indent lvl = CHR 0x0A # replicate (2 * lvl) CHR '' ''"

text \<open>The chunks of a non-empty container, joined by \<open>sep\<close>.\<close>

fun join :: "string \<Rightarrow> string list \<Rightarrow> string" where
  "join sep [] = []"
| "join sep [x] = x"
| "join sep (x # y # ys) = x @ sep @ join sep (y # ys)"

text \<open>
  The encoder at nesting level \<open>lvl\<close>: an empty list is \<open>[]\<close> and an empty dict \<open>{}\<close>;
  otherwise every item is on a line of its own, one level deeper, items are separated by a
  comma, a key and its value by a colon and a space, and the closing bracket is on a line of
  its own at the level of the container.
\<close>

primrec iterencode :: "json \<Rightarrow> nat \<Rightarrow> string"
  and iterencode_list :: "json list \<Rightarrow> nat \<Rightarrow> string list"
  and iterencode_dict :: "(string \<times> json) list \<Rightarrow> nat \<Rightarrow> string list"
  and iterencode_item :: "string \<times> json \<Rightarrow> nat \<Rightarrow> string" where
  "iterencode JNull lvl = ''null''"
| "iterencode (JBool b) lvl = (if b then ''true'' else ''false'')"
| "iterencode (JInt i) lvl = str_int i"
| "iterencode (JFloat r) lvl = floatstr r"
| "iterencode (JStr s) lvl = encode_str s"
| "iterencode (JArr xs) lvl =
     (if xs = [] then ''[]''
      else ''['' @ newline_indent (Suc lvl)
           @ join ('','' @ newline_indent (Suc lvl)) (iterencode_list xs (Suc lvl))
           @ newline_indent lvl @ '']'')"
| "iterencode (JObj kvs) lvl =
     (if kvs = [] then ''{}''
      else ''{'' @ newline_indent (Suc lvl)
           @ join ('','' @ newline_indent (Suc lvl)) (iterencode_dict kvs (Suc lvl))
           @ newline_indent lvl @ ''}'')"
| "iterencode_list [] lvl = []"
| "iterencode_list (x # xs) lvl = iterencode x lvl # iterencode_list xs lvl"
| "iterencode_dict [] lvl = []"
| "iterencode_dict (kv # kvs) lvl = iterencode_item kv lvl # iterencode_dict kvs lvl"
| "iterencode_item (k, v) lvl = encode_str k @ '': '' @ iterencode v lvl"

definition dumps :: "json \<Rightarrow> string" where
  "dumps obj = iterencode obj 0"

section \<open>Reading JSON text\<close>



definition is_digit :: "char \<Rightarrow> bool" where
  "is_digit c = (48 \<le> (of_char c :: nat) \<and> (of_char c :: nat) \<le> 57)"



definition nat_token :: "string \<Rightarrow> bool" where
  "nat_token ds = (ds \<noteq> [] \<and> list_all is_digit ds \<and> (length ds = 1 \<or> hd ds \<noteq> CHR ''0''))"

definition strip_minus :: "string \<Rightarrow> string" where
  "strip_minus s = (case s of [] \<Rightarrow> [] | c # r \<Rightarrow> if c = CHR ''-'' then r else s)"



definition exp_token :: "string \<Rightarrow> bool" where
  "exp_token s =
     (case s of
        [] \<Rightarrow> False
      | c # r \<Rightarrow>
          (c = CHR ''e'' \<or> c = CHR ''E'')
          \<and> (case r of
                [] \<Rightarrow> False
              | d # r' \<Rightarrow>
                  if d = CHR ''+'' \<or> d = CHR ''-'' then r' \<noteq> [] \<and> list_all is_digit r'
                  else list_all is_digit r))"

definition float_token :: "string \<Rightarrow> bool" where
  "float_token tok =
     (let b = strip_minus tok; ip = takeWhile is_digit b; r1 = dropWhile is_digit b
      in nat_token ip
         \<and> (case r1 of
               [] \<Rightarrow> False
             | c # r2 \<Rightarrow>
                 if c = CHR ''.''
                 then (let fp = takeWhile is_digit r2; r3 = dropWhile is_digit r2
                       in fp \<noteq> [] \<and> (r3 = [] \<or> exp_token r3))
                 else exp_token r1))"












text \<open>
  The Python objects that are JSON values: a \<open>float\<close> is a finite number (its text is a
  number of the grammar with a fraction or an exponent, so it is not \<open>nan\<close> or \<open>inf\<close>), and
  the keys of a \<open>dict\<close> are distinct.
\<close>

primrec wf_json :: "json \<Rightarrow> bool"
  and wf_list :: "json list \<Rightarrow> bool"
  and wf_members :: "(string \<times> json) list \<Rightarrow> bool"
  and wf_member :: "string \<times> json \<Rightarrow> bool" where
  "wf_json JNull = True"
| "wf_json (JBool b) = True"
| "wf_json (JInt i) = True"
| "wf_json (JFloat r) = float_token r"
| "wf_json (JStr s) = True"
| "wf_json (JArr xs) = wf_list xs"
| "wf_json (JObj kvs) = (distinct (map fst kvs) \<and> wf_members kvs)"
| "wf_list [] = True"
| "wf_list (x # xs) = (wf_json x \<and> wf_list xs)"
| "wf_members [] = True"
| "wf_members (kv # kvs) = (wf_member kv \<and> wf_members kvs)"
| "wf_member (k, v) = wf_json v"




section \<open>The upstream API\<close>

text \<open>
  One \<open>GET\<close>: the URL, the headers and the timeout handed to \<open>client.get\<close>.
\<close>

record request =
  req_url :: string
  req_headers :: "(string \<times> string) list"
  req_timeout :: nat

text \<open>
  What the network answers. \<open>client.get\<close> raises (\<open>Raised\<close>, with the text of the
  exception: no route, refused, timed out), or returns a response: its status code, the text
  of the error \<open>raise_for_status\<close> raises for that status when it is not a success, and
  what \<open>response.json()\<close> gives, the text of its exception (\<open>Inl\<close>) or the decoded body.
\<close>

record response =
  status_code :: nat
  status_error :: string
  body :: "string + json"

datatype outcome = Raised string | Responded response

text \<open>
  The world of one call: the value of the environment variable
  \<open>FINANCIAL_DATASETS_API_KEY\<close>, if set, and the answer of the network to each request.
\<close>

record env =
  api_key :: "string option"
  http_get :: "request \<Rightarrow> outcome"

definition FINANCIAL_DATASETS_API_BASE :: string where
  "FINANCIAL_DATASETS_API_BASE = ''https://api.financialdatasets.ai''"

text \<open>\<open>response.raise_for_status()\<close> passes the 2xx codes.\<close>

definition is_success :: "nat \<Rightarrow> bool" where
  "is_success code = (200 \<le> code \<and> code \<le> 299)"

text \<open>
  \<open>make_request\<close>: the header is set when the key is a non-empty string; whatever is
  raised inside the \<open>try\<close> becomes the dict \<open>{"Error": str(e)}\<close>. The request sent is
  returned with the data.
\<close>

definition make_request :: "env \<Rightarrow> string \<Rightarrow> request \<times> json" where
  "make_request e url =
     (let headers = (case api_key e of
                       None \<Rightarrow> []
                     | Some k \<Rightarrow> if k \<noteq> [] then [(''X-API-KEY'', k)] else []);
          req = \<lparr>req_url = url, req_headers = headers, req_timeout = 30\<rparr>
      in (req,
          case http_get e req of
            Raised msg \<Rightarrow> JObj [(''Error'', JStr msg)]
          | Responded r \<Rightarrow>
              if \<not> is_success (status_code r) then JObj [(''Error'', JStr (status_error r))]
              else (case body r of
                      Inl msg \<Rightarrow> JObj [(''Error'', JStr msg)]
                    | Inr data \<Rightarrow> data)))"

section \<open>The tools\<close>

text \<open>
  Every tool returns the request it sent and what the call gives the host: the string it
  returns (\<open>Inr\<close>) or the exception it raises (\<open>Inl\<close>).
\<close>

type_synonym invocation = "request \<times> (py_error + string)"

definition get_income_statements ::
  "env \<Rightarrow> string \<Rightarrow> string \<Rightarrow> string \<Rightarrow> int \<Rightarrow> invocation" where
  "get_income_statements e ticker cutoff_date period limit =
     (let url = FINANCIAL_DATASETS_API_BASE @ ''/financials/income-statements/?ticker='' @ ticker
                  @ ''&period='' @ period @ ''&limit='' @ str_int limit
                  @ ''&report_period_lte='' @ cutoff_date;
          (req, data) = make_request e url
      in (req,
          if \<not> truthy data
          then Inr ''Unable to fetch income statements or no income statements found.''
          else (case dict_get data ''income_statements'' (JArr []) of
                  Inl err \<Rightarrow> Inl err
                | Inr income_statements \<Rightarrow>
                    if \<not> truthy income_statements
                    then Inr ''Unable to fetch income statements or no income statements found.''
                    else Inr (dumps income_statements))))"

definition get_balance_sheets ::
  "env \<Rightarrow> string \<Rightarrow> string \<Rightarrow> string \<Rightarrow> int \<Rightarrow> invocation" where
  "get_balance_sheets e ticker cutoff_date period limit =
     (let url = FINANCIAL_DATASETS_API_BASE @ ''/financials/balance-sheets/?ticker='' @ ticker
                  @ ''&period='' @ period @ ''&limit='' @ str_int limit
                  @ ''&report_period_lte='' @ cutoff_date;
          (req, data) = make_request e url
      in (req,
          if \<not> truthy data
          then Inr ''Unable to fetch balance sheets or no balance sheets found.''
          else (case dict_get data ''balance_sheets'' (JArr []) of
                  Inl err \<Rightarrow> Inl err
                | Inr balance_sheets \<Rightarrow>
                    if \<not> truthy balance_sheets
                    then Inr ''Unable to fetch balance sheets or no balance sheets found.''
                    else Inr (dumps balance_sheets))))"

definition get_cash_flow_statements ::
  "env \<Rightarrow> string \<Rightarrow> string \<Rightarrow> string \<Rightarrow> int \<Rightarrow> invocation" where
  "get_cash_flow_statements e ticker cutoff_date period limit =
     (let url = FINANCIAL_DATASETS_API_BASE @ ''/financials/cash-flow-statements/?ticker=''
                  @ ticker @ ''&period='' @ period @ ''&limit='' @ str_int limit
                  @ ''&report_period_lte='' @ cutoff_date;
          (req, data) = make_request e url
      in (req,
          if \<not> truthy data
          then Inr ''Unable to fetch cash flow statements or no cash flow statements found.''
          else (case dict_get data ''cash_flow_statements'' (JArr []) of
                  Inl err \<Rightarrow> Inl err
                | Inr cash_flow_statements \<Rightarrow>
                    if \<not> truthy cash_flow_statements
                    then Inr ''Unable to fetch cash flow statements or no cash flow statements found.''
                    else Inr (dumps cash_flow_statements))))"

definition get_historical_stock_prices ::
  "env \<Rightarrow> string \<Rightarrow> string \<Rightarrow> string \<Rightarrow> string \<Rightarrow> string \<Rightarrow> int \<Rightarrow> invocation" where
  "get_historical_stock_prices e ticker start_date end_date cutoff_date interval
       interval_multiplier =
     (let end_date = (if end_date > cutoff_date then cutoff_date else end_date);
          url = FINANCIAL_DATASETS_API_BASE @ ''/prices/?ticker='' @ ticker
                  @ ''&interval='' @ interval
                  @ ''&interval_multiplier='' @ str_int interval_multiplier
                  @ ''&start_date='' @ start_date @ ''&end_date='' @ end_date;
          (req, data) = make_request e url
      in (req,
          if \<not> truthy data
          then Inr ''Unable to fetch prices or no prices found.''
          else (case dict_get data ''prices'' (JArr []) of
                  Inl err \<Rightarrow> Inl err
                | Inr prices \<Rightarrow>
                    if \<not> truthy prices
                    then Inr ''Unable to fetch prices or no prices found.''
                    else Inr (dumps prices))))"

definition get_company_news :: "env \<Rightarrow> string \<Rightarrow> string \<Rightarrow> invocation" where
  "get_company_news e ticker cutoff_date =
     (let url = FINANCIAL_DATASETS_API_BASE @ ''/news/?limit=20&end_date='' @ cutoff_date
                  @ ''&ticker='' @ ticker;
          (req, data) = make_request e url
      in (req,
          if \<not> truthy data
          then Inr ''Unable to fetch news or no news found.''
          else (case dict_get data ''news'' (JArr []) of
                  Inl err \<Rightarrow> Inl err
                | Inr news \<Rightarrow>
                    if \<not> truthy news
                    then Inr ''Unable to fetch news or no news found.''
                    else Inr (dumps news))))"

definition get_available_crypto_tickers :: "env \<Rightarrow> string \<Rightarrow> invocation" where
  "get_available_crypto_tickers e cutoff_date =
     (let url = FINANCIAL_DATASETS_API_BASE @ ''/crypto/prices/tickers'';
          (req, data) = make_request e url
      in (req,
          if \<not> truthy data
          then Inr ''Unable to fetch available crypto tickers or no available crypto tickers found.''
          else (case dict_get data ''tickers'' (JArr []) of
                  Inl err \<Rightarrow> Inl err
                | Inr tickers \<Rightarrow> Inr (dumps tickers))))"

definition get_crypto_prices ::
  "env \<Rightarrow> string \<Rightarrow> string \<Rightarrow> string \<Rightarrow> string \<Rightarrow> string \<Rightarrow> int \<Rightarrow> invocation" where
  "get_crypto_prices e ticker start_date end_date cutoff_date interval interval_multiplier =
     (let end_date = (if end_date > cutoff_date then cutoff_date else end_date);
          url = FINANCIAL_DATASETS_API_BASE @ ''/crypto/prices/?ticker='' @ ticker
                  @ ''&interval='' @ interval
                  @ ''&interval_multiplier='' @ str_int interval_multiplier
                  @ ''&start_date='' @ start_date @ ''&end_date='' @ end_date;
          (req, data) = make_request e url
      in (req,
          if \<not> truthy data
          then Inr ''Unable to fetch prices or no prices found.''
          else (case dict_get data ''prices'' (JArr []) of
                  Inl err \<Rightarrow> Inl err
                | Inr prices \<Rightarrow>
                    if \<not> truthy prices
                    then Inr ''Unable to fetch prices or no prices found.''
                    else Inr (dumps prices))))"

definition get_historical_crypto_prices ::
  "env \<Rightarrow> string \<Rightarrow> string \<Rightarrow> string \<Rightarrow> string \<Rightarrow> string \<Rightarrow> int \<Rightarrow> invocation" where
  "get_historical_crypto_prices e ticker start_date end_date cutoff_date interval
       interval_multiplier =
     (let end_date = (if end_date > cutoff_date then cutoff_date else end_date);
          url = FINANCIAL_DATASETS_API_BASE @ ''/crypto/prices/?ticker='' @ ticker
                  @ ''&interval='' @ interval
                  @ ''&interval_multiplier='' @ str_int interval_multiplier
                  @ ''&start_date='' @ start_date @ ''&end_date='' @ end_date;
          (req, data) = make_request e url
      in (req,
          if \<not> truthy data
          then Inr ''Unable to fetch prices or no prices found.''
          else (case dict_get data ''prices'' (JArr []) of
                  Inl err \<Rightarrow> Inl err
                | Inr prices \<Rightarrow>
                    if \<not> truthy prices
                    then Inr ''Unable to fetch prices or no prices found.''
                    else Inr (dumps prices))))"

text \<open>A stub upstream that gives the same answer to every request, and no key set.\<close>

definition stub :: "outcome \<Rightarrow> env" where
  "stub out = \<lparr>api_key = None, http_get = (\<lambda>req. out)\<rparr>"

definition http_ok :: "json \<Rightarrow> outcome" where
  "http_ok data = Responded \<lparr>status_code = 200, status_error = [], body = Inr data\<rparr>"

definition http_500 :: outcome where
  "http_500 = Responded \<lparr>status_code = 500,
     status_error = ''Server error 500 Internal Server Error'', body = Inl ''no body''\<rparr>"

section \<open>Kinds of upstream answers\<close>

fun is_dict :: "json \<Rightarrow> bool" where
  "is_dict (JObj kvs) = True"
| "is_dict JNull = False"
| "is_dict (JBool b) = False"
| "is_dict (JInt i) = False"
| "is_dict (JFloat r) = False"
| "is_dict (JStr s) = False"
| "is_dict (JArr xs) = False"

text \<open>
  The text of the exception \<open>make_request\<close> catches, if the request fails: a transport
  error, a status that is not 2xx, or a body that does not decode.
\<close>

definition error_text :: "outcome \<Rightarrow> string option" where
  "error_text out =
     (case out of
        Raised msg \<Rightarrow> Some msg
      | Responded r \<Rightarrow>
          if \<not> is_success (status_code r) then Some (status_error r)
          else (case body r of Inl msg \<Rightarrow> Some msg | Inr data \<Rightarrow> None))"

definition request_failed :: "outcome \<Rightarrow> bool" where
  "request_failed out = (error_text out \<noteq> None)"

text \<open>The decoded body of a request that succeeds.\<close>

definition decoded_body :: "outcome \<Rightarrow> json option" where
  "decoded_body out =
     (case out of
        Raised msg \<Rightarrow> None
      | Responded r \<Rightarrow>
          if \<not> is_success (status_code r) then None
          else (case body r of Inl msg \<Rightarrow> None | Inr data \<Rightarrow> Some data))"




section \<open>The request a tool sends\<close>

lemma fst_make_request:
  "fst (make_request e url) =
     \<lparr>req_url = url,
      req_headers = (case api_key e of
                       None \<Rightarrow> []
                     | Some k \<Rightarrow> if k \<noteq> [] then [(''X-API-KEY'', k)] else []),
      req_timeout = 30\<rparr>"
  by (simp add: make_request_def Let_def)

lemma req_url_make_request: "req_url (fst (make_request e url)) = url"
  by (simp add: fst_make_request)








text \<open>
  C7. \<open>get_historical_crypto_prices\<close> and \<open>get_crypto_prices\<close> send the same request
  and give the same result, on all arguments and against any upstream.
\<close>

theorem historical_crypto_prices_same_as_crypto_prices:
  "get_historical_crypto_prices e ticker start_date end_date cutoff_date interval m
     = get_crypto_prices e ticker start_date end_date cutoff_date interval m"
  by (simp only: get_historical_crypto_prices_def get_crypto_prices_def)

text \<open>
  C9. \<open>get_available_crypto_tickers\<close> does not depend on \<open>cutoff_date\<close>: two cutoff
  dates give the same request and the same result, and the URL is the fixed tickers path.
\<close>

theorem crypto_tickers_ignore_cutoff:
  "get_available_crypto_tickers e cutoff_date = get_available_crypto_tickers e cutoff_date'
   \<and> req_url (fst (get_available_crypto_tickers e cutoff_date))
       = FINANCIAL_DATASETS_API_BASE @ ''/crypto/prices/tickers''"
  by (simp add: get_available_crypto_tickers_def Let_def split_beta req_url_make_request)



section \<open>What a tool returns\<close>

lemma snd_make_request:
  "snd (make_request e url) =
     (case error_text (http_get e (fst (make_request e url))) of
        Some msg \<Rightarrow> JObj [(''Error'', JStr msg)]
      | None \<Rightarrow> the (decoded_body (http_get e (fst (make_request e url)))))"
  by (simp add: make_request_def Let_def error_text_def decoded_body_def
        split: outcome.splits sum.splits option.splits)


lemma failed_data:
  assumes "\<forall>req. request_failed (http_get e req)"
  shows "\<exists>msg. snd (make_request e url) = JObj [(''Error'', JStr msg)]"
  using assms [rule_format, of "fst (make_request e url)"]
  by (auto simp add: snd_make_request request_failed_def)

lemma checked_failed:
  "data = JObj [(''Error'', JStr msg)] \<Longrightarrow> k \<noteq> ''Error'' \<Longrightarrow>
   (if \<not> truthy data then Inr nf
    else (case dict_get data k (JArr []) of
            Inl err \<Rightarrow> Inl err
          | Inr v \<Rightarrow> if \<not> truthy v then Inr nf else Inr (dumps v))) = Inr nf"
  by simp

lemma other_tools_not_found_on_failure:
  assumes "\<forall>req. request_failed (http_get e req)"
  shows "snd (get_income_statements e ticker cutoff_date period limit)
           = Inr ''Unable to fetch income statements or no income statements found.''"
    and "snd (get_balance_sheets e ticker cutoff_date period limit)
           = Inr ''Unable to fetch balance sheets or no balance sheets found.''"
    and "snd (get_cash_flow_statements e ticker cutoff_date period limit)
           = Inr ''Unable to fetch cash flow statements or no cash flow statements found.''"
    and "snd (get_historical_stock_prices e ticker start_date end_date cutoff_date interval m)
           = Inr ''Unable to fetch prices or no prices found.''"
    and "snd (get_company_news e ticker cutoff_date)
           = Inr ''Unable to fetch news or no news found.''"
    and "snd (get_crypto_prices e ticker start_date end_date cutoff_date interval m)
           = Inr ''Unable to fetch prices or no prices found.''"
    and "snd (get_historical_crypto_prices e ticker start_date end_date cutoff_date interval m)
           = Inr ''Unable to fetch prices or no prices found.''"
proof -
  have R: "(if \<not> truthy (snd (make_request e url)) then Inr nf
            else (case dict_get (snd (make_request e url)) k (JArr []) of
                    Inl err \<Rightarrow> Inl err
                  | Inr v \<Rightarrow> if \<not> truthy v then Inr nf else Inr (dumps v))) = Inr nf"
    if "k \<noteq> ''Error''" for url k nf
  proof -
    obtain msg where "snd (make_request e url) = JObj [(''Error'', JStr msg)]"
      using failed_data [OF assms] by blast
    then show ?thesis using that by (rule checked_failed)
  qed
  show "snd (get_income_statements e ticker cutoff_date period limit)
           = Inr ''Unable to fetch income statements or no income statements found.''"
    unfolding get_income_statements_def Let_def split_beta snd_conv by (rule R) simp
  show "snd (get_balance_sheets e ticker cutoff_date period limit)
           = Inr ''Unable to fetch balance sheets or no balance sheets found.''"
    unfolding get_balance_sheets_def Let_def split_beta snd_conv by (rule R) simp
  show "snd (get_cash_flow_statements e ticker cutoff_date period limit)
           = Inr ''Unable to fetch cash flow statements or no cash flow statements found.''"
    unfolding get_cash_flow_statements_def Let_def split_beta snd_conv by (rule R) simp
  show "snd (get_historical_stock_prices e ticker start_date end_date cutoff_date interval m)
           = Inr ''Unable to fetch prices or no prices found.''"
    unfolding get_historical_stock_prices_def Let_def split_beta snd_conv by (rule R) simp
  show "snd (get_company_news e ticker cutoff_date)
           = Inr ''Unable to fetch news or no news found.''"
    unfolding get_company_news_def Let_def split_beta snd_conv by (rule R) simp
  show "snd (get_crypto_prices e ticker start_date end_date cutoff_date interval m)
           = Inr ''Unable to fetch prices or no prices found.''"
    unfolding get_crypto_prices_def Let_def split_beta snd_conv by (rule R) simp
  show "snd (get_historical_crypto_prices e ticker start_date end_date cutoff_date interval m)
           = Inr ''Unable to fetch prices or no prices found.''"
    unfolding get_historical_crypto_prices_def Let_def split_beta snd_conv by (rule R) simp
qed

lemma body_data:
  assumes "\<forall>req. decoded_body (http_get e req) = Some data"
  shows "snd (make_request e url) = data"
  using assms [rule_format, of "fst (make_request e url)"]
  by (auto simp add: make_request_def Let_def decoded_body_def
        split: outcome.splits sum.splits if_splits)

lemma other_tools_not_found_on_empty_array:
  assumes "\<forall>req. decoded_body (http_get e req) = Some (JObj kvs)"
  shows "map_of kvs ''income_statements'' = Some (JArr []) \<Longrightarrow>
         snd (get_income_statements e ticker cutoff_date period limit)
           = Inr ''Unable to fetch income statements or no income statements found.''"
    and "map_of kvs ''balance_sheets'' = Some (JArr []) \<Longrightarrow>
         snd (get_balance_sheets e ticker cutoff_date period limit)
           = Inr ''Unable to fetch balance sheets or no balance sheets found.''"
    and "map_of kvs ''cash_flow_statements'' = Some (JArr []) \<Longrightarrow>
         snd (get_cash_flow_statements e ticker cutoff_date period limit)
           = Inr ''Unable to fetch cash flow statements or no cash flow statements found.''"
    and "map_of kvs ''prices'' = Some (JArr []) \<Longrightarrow>
         snd (get_historical_stock_prices e ticker start_date end_date cutoff_date interval m)
           = Inr ''Unable to fetch prices or no prices found.''"
    and "map_of kvs ''news'' = Some (JArr []) \<Longrightarrow>
         snd (get_company_news e ticker cutoff_date)
           = Inr ''Unable to fetch news or no news found.''"
    and "map_of kvs ''prices'' = Some (JArr []) \<Longrightarrow>
         snd (get_crypto_prices e ticker start_date end_date cutoff_date interval m)
           = Inr ''Unable to fetch prices or no prices found.''"
    and "map_of kvs ''prices'' = Some (JArr []) \<Longrightarrow>
         snd (get_historical_crypto_prices e ticker start_date end_date cutoff_date interval m)
           = Inr ''Unable to fetch prices or no prices found.''"
  unfolding get_income_statements_def get_balance_sheets_def get_cash_flow_statements_def
    get_historical_stock_prices_def get_company_news_def get_crypto_prices_def
    get_historical_crypto_prices_def Let_def split_beta snd_conv body_data [OF assms]
  by simp_all


text \<open>
  C3. A request that fails: \<open>get_available_crypto_tickers\<close> against a stub that answers
  HTTP 500 returns the text \<open>[]\<close>, not its not-found string (the seven other tools return
  theirs: \<open>other_tools_not_found_on_failure\<close>).
\<close>

theorem crypto_tickers_failure_gives_empty_list:
  "snd (get_available_crypto_tickers (stub http_500) ''2024-01-01'') = Inr ''[]''"
  by (simp add: get_available_crypto_tickers_def stub_def http_500_def make_request_def
        is_success_def dumps_def)

text \<open>
  C4. An envelope field that is an empty array: \<open>get_available_crypto_tickers\<close> on the
  body \<open>{"tickers": []}\<close> returns the text \<open>[]\<close>, not its not-found string (the seven
  other tools return theirs: \<open>other_tools_not_found_on_empty_array\<close>).
\<close>

theorem crypto_tickers_empty_array_gives_empty_list:
  "snd (get_available_crypto_tickers (stub (http_ok (JObj [(''tickers'', JArr [])])))
          ''2024-01-01'') = Inr ''[]''"
  by (simp add: get_available_crypto_tickers_def stub_def http_ok_def make_request_def
        is_success_def dumps_def)







text \<open>
  The amended statement leaves out nothing it could keep: on any other body, one that
  Python takes for true and that is not a dict, every tool raises.
\<close>

lemma unchecked_raises:
  "truthy data \<Longrightarrow> \<not> is_dict data \<Longrightarrow>
   (if \<not> truthy data then Inr nf
    else (case dict_get data k (JArr []) of
            Inl err \<Rightarrow> Inl err
          | Inr v \<Rightarrow> Inr (dumps v))) = Inl AttributeError"
  by (cases data) simp_all

lemma checked_raises:
  "truthy data \<Longrightarrow> \<not> is_dict data \<Longrightarrow>
   (if \<not> truthy data then Inr nf
    else (case dict_get data k (JArr []) of
            Inl err \<Rightarrow> Inl err
          | Inr v \<Rightarrow> if \<not> truthy v then Inr nf else Inr (dumps v))) = Inl AttributeError"
  by (cases data) simp_all

lemma tools_raise_on_other_bodies:
  assumes "\<forall>req. decoded_body (http_get e req) = Some data"
    and "truthy data" and "\<not> is_dict data"
  shows "snd (get_income_statements e ticker cutoff_date period limit) = Inl AttributeError"
    and "snd (get_balance_sheets e ticker cutoff_date period limit) = Inl AttributeError"
    and "snd (get_cash_flow_statements e ticker cutoff_date period limit) = Inl AttributeError"
    and "snd (get_historical_stock_prices e ticker start_date end_date cutoff_date interval m)
           = Inl AttributeError"
    and "snd (get_company_news e ticker cutoff_date) = Inl AttributeError"
    and "snd (get_available_crypto_tickers e cutoff_date) = Inl AttributeError"
    and "snd (get_crypto_prices e ticker start_date end_date cutoff_date interval m)
           = Inl AttributeError"
    and "snd (get_historical_crypto_prices e ticker start_date end_date cutoff_date interval m)
           = Inl AttributeError"
  unfolding get_income_statements_def get_balance_sheets_def get_cash_flow_statements_def
    get_historical_stock_prices_def get_company_news_def get_available_crypto_tickers_def
    get_crypto_prices_def get_historical_crypto_prices_def Let_def split_beta snd_conv
    body_data [OF assms(1)]
  by (rule checked_raises [OF assms(2,3)] unchecked_raises [OF assms(2,3)])+

section \<open>The encoder's text reads back as the value\<close>

subsection \<open>Digits\<close>
















subsection \<open>Float tokens\<close>











subsection \<open>White space\<close>





subsection \<open>String literals\<close>









subsection \<open>One step of the reader\<close>


















subsection \<open>How an encoding starts\<close>









subsection \<open>Dicts\<close>




subsection \<open>Reading back what the encoder prints\<close>





subsection \<open>The text is long enough to pay for its reading\<close>





section \<open>The string a tool returns\<close>







end
